theory Spec2Isabelle
  imports Complex_Main "HOL-Library.Multiset" "HOL-Library.Product_Lexorder"
begin

section \<open>ClaudeCodeSpeedTest: the concurrent probing engine\<close>

text \<open>
  A shallow embedding of \<^verbatim>\<open>src/ClaudeCodeSpeedTest.py\<close> (class \<^verbatim>\<open>ConcurrentRouteTest\<close>).

  Conventions of the embedding.
  \<^item> Python's \<^verbatim>\<open>float\<close> durations and scores are real numbers: arithmetic is exact,
    rounding is not modelled. Python's \<^verbatim>\<open>int\<close> is \<open>int\<close>.
  \<^item> An exception is a value of type \<open>exn\<close>: the class, as far as a handler of the source
    tells classes apart, and the text \<^verbatim>\<open>str(e)\<close>. A computation that may raise returns
    \<open>exn + 'a\<close>, with \<open>Inl\<close> the exception.
  \<^item> The network, the clock and the scheduler are the environment. What they did in one
    run is an explicit argument: an \<open>exchange\<close> for one HTTP request, a \<open>route_env\<close> for
    the probes of one route, a \<open>run_env\<close> for the whole run. The model describes runs in
    which every task that was started settles.
  \<^item> The two concurrency caps, the timeout and the delay decide which completion orders
    can occur; a completion order is an input of the model and the caps are not. The
    model covers positive caps: with a cap of zero or less the source raises while it
    starts, or waits for ever.
  \<^item> Terminal rendering (panels, tables, progress bars) is left out, but every place
    where the rendering code can raise is a branch of the model.
\<close>

subsection \<open>Exceptions\<close>

datatype exn_class =
  TimeoutError | ClientError | ConnectionError
  | ZeroDivisionError | IndexError | StatisticsError | OtherError

datatype exn = Exn exn_class string

fun exn_class_of :: "exn \<Rightarrow> exn_class" where
  "exn_class_of (Exn c m) = c"

text \<open>\<^verbatim>\<open>str(e)\<close>\<close>

fun str_exn :: "exn \<Rightarrow> string" where
  "str_exn (Exn c m) = m"

text \<open>Formatting an \<^verbatim>\<open>int\<close> inside an f-string, as in \<^verbatim>\<open>f"HTTP {response.status}"\<close>.\<close>

definition digit_char :: "nat \<Rightarrow> char" where
  "digit_char d = ''0123456789'' ! d"

fun digits :: "nat \<Rightarrow> string" where
  "digits n = (if n < 10 then [digit_char n] else digits (n div 10) @ [digit_char (n mod 10)])"

declare digits.simps [simp del]

definition str_int :: "int \<Rightarrow> string" where
  "str_int i = (if i < 0 then CHR ''-'' # digits (nat (- i)) else digits (nat i))"

subsection \<open>The prober: \<^verbatim>\<open>test_single_request_async\<close>, \<^verbatim>\<open>test_single_request_sync\<close>\<close>

record TestResult =
  success :: bool
  total_time :: real
  first_byte_time :: real
  error :: string
  thread_id :: int

text \<open>
  One read of the streamed response body either yields a chunk of bytes or raises; the
  stream ends where the list ends.
\<close>

datatype item = Chunk string | Fails exn

text \<open>
  What the network and \<^verbatim>\<open>time.perf_counter()\<close> do during one request: the three clock
  readings the source takes, whether the POST raises or answers with a status code, and
  the reads of the body.
\<close>

record exchange =
  start_clock :: real
  post :: "exn + int"
  body :: "item list"
  first_byte_clock :: real
  end_clock :: real

text \<open>
  The first loop over the body: it stops at the first non-empty chunk. The result is
  \<open>Inr (Some rest)\<close> with the unread rest of the stream when a non-empty chunk came
  (\<^verbatim>\<open>content_received\<close>), \<open>Inr None\<close> when the stream ended before, \<open>Inl e\<close> when a read
  raised.
\<close>

fun first_chunk :: "item list \<Rightarrow> exn + item list option" where
  "first_chunk [] = Inr None"
| "first_chunk (Fails e # rest) = Inl e"
| "first_chunk (Chunk c # rest) = (if c \<noteq> [] then Inr (Some rest) else first_chunk rest)"

text \<open>The second loop reads the remaining content; it can only raise.\<close>

fun drain :: "item list \<Rightarrow> exn option" where
  "drain [] = None"
| "drain (Fails e # rest) = Some e"
| "drain (Chunk c # rest) = drain rest"

definition failed :: "string \<Rightarrow> int \<Rightarrow> TestResult" where
  "failed msg tid =
     \<lparr>success = False, total_time = 0, first_byte_time = 0, error = msg, thread_id = tid\<rparr>"

text \<open>The \<^verbatim>\<open>except\<close> clauses of the two probers, in the order of the source.\<close>

definition async_except :: "int \<Rightarrow> exn \<Rightarrow> TestResult" where
  "async_except tid e =
     (if exn_class_of e = TimeoutError then failed ''Timeout'' tid
      else if exn_class_of e = ClientError then failed (''Client Error: '' @ str_exn e) tid
      else failed (str_exn e) tid)"

definition sync_except :: "int \<Rightarrow> exn \<Rightarrow> TestResult" where
  "sync_except tid e =
     (if exn_class_of e = TimeoutError then failed ''Timeout'' tid
      else if exn_class_of e = ConnectionError then failed ''Connection Error'' tid
      else failed (str_exn e) tid)"

text \<open>
  The body of the \<^verbatim>\<open>try\<close> block is the same in both probers; \<open>handler\<close> is the chain of
  \<^verbatim>\<open>except\<close> clauses around it.
\<close>

definition request_body :: "(exn \<Rightarrow> TestResult) \<Rightarrow> int \<Rightarrow> exchange \<Rightarrow> TestResult" where
  "request_body handler tid x =
     (case post x of
        Inl e \<Rightarrow> handler e
      | Inr status \<Rightarrow>
          if status \<noteq> 200 then failed (''HTTP '' @ str_int status) tid
          else (case first_chunk (body x) of
                  Inl e \<Rightarrow> handler e
                | Inr None \<Rightarrow> failed ''No response data'' tid
                | Inr (Some rest) \<Rightarrow>
                    (case drain rest of
                       Some e \<Rightarrow> handler e
                     | None \<Rightarrow>
                         \<lparr>success = True,
                          total_time = end_clock x - start_clock x,
                          first_byte_time = first_byte_clock x - start_clock x,
                          error = [],
                          thread_id = tid\<rparr>)))"

definition test_single_request_async :: "int \<Rightarrow> exchange \<Rightarrow> TestResult" where
  "test_single_request_async tid x = request_body (async_except tid) tid x"

definition test_single_request_sync :: "int \<Rightarrow> exchange \<Rightarrow> TestResult" where
  "test_single_request_sync tid x = request_body (sync_except tid) tid x"

subsection \<open>Statistics: \<^verbatim>\<open>calculate_stats\<close>\<close>

text \<open>
  \<^verbatim>\<open>statistics.mean\<close> and \<^verbatim>\<open>statistics.median\<close> raise \<^verbatim>\<open>StatisticsError\<close> on empty data.
  \<open>mean_value\<close> and \<open>median_value\<close> are what they return on non-empty data; \<open>mean\<close> is the
  call with its exception, for the call sites that no emptiness test protects.
\<close>

definition mean_value :: "real list \<Rightarrow> real" where
  "mean_value data = sum_list data / real (length data)"

definition median_value :: "real list \<Rightarrow> real" where
  "median_value data =
     (let sorted_data = sort data; n = length sorted_data in
      if n mod 2 = 1 then sorted_data ! (n div 2)
      else (sorted_data ! (n div 2 - 1) + sorted_data ! (n div 2)) / 2)"

definition mean :: "real list \<Rightarrow> exn + real" where
  "mean data =
     (if data = [] then Inl (Exn StatisticsError ''mean requires at least one data point'')
      else Inr (mean_value data))"

text \<open>The builtins \<^verbatim>\<open>min\<close> and \<^verbatim>\<open>max\<close> on a non-empty list: one pass from the first element.\<close>

fun min_value :: "real list \<Rightarrow> real" where
  "min_value [] = 0"
| "min_value (t # ts) = fold min ts t"

fun max_value :: "real list \<Rightarrow> real" where
  "max_value [] = 0"
| "max_value (t # ts) = fold max ts t"

text \<open>The dictionary \<^verbatim>\<open>{'avg', 'min', 'max', 'median'}\<close>.\<close>

record stats =
  avg :: real
  stat_min :: real
  stat_max :: real
  median :: real

definition calculate_stats :: "real list \<Rightarrow> stats" where
  "calculate_stats durations =
     (if durations = [] then \<lparr>avg = 0, stat_min = 0, stat_max = 0, median = 0\<rparr>
      else \<lparr>avg = mean_value durations, stat_min = min_value durations,
            stat_max = max_value durations, median = median_value durations\<rparr>)"

subsection \<open>The route runner: \<^verbatim>\<open>test_route_async\<close>, \<^verbatim>\<open>test_route_sync\<close>\<close>

text \<open>The entries of \<^verbatim>\<open>self.routes\<close>, a dictionary kept in insertion order.\<close>

record route_info =
  name :: string
  url :: string
  description :: string

text \<open>
  The per-route dictionary \<^verbatim>\<open>results\<close>. Its keys \<^verbatim>\<open>'url'\<close> and \<^verbatim>\<open>'description'\<close> are
  \<open>result_url\<close> and \<open>result_description\<close> here, apart from the fields of \<open>route_info\<close>.
\<close>

record RouteResult =
  route_name :: string
  result_url :: string
  result_description :: string
  success_count :: int
  fail_count :: int
  total_times :: "real list"
  first_byte_times :: "real list"
  errors :: "string list"
  concurrent_threads :: "int set"

text \<open>The fields of \<^verbatim>\<open>self\<close> that the engine reads and writes.\<close>

record tester =
  routes :: "(string \<times> route_info) list"
  test_count :: int
  use_async :: bool
  results :: "RouteResult list"

text \<open>
  What happens while one route is probed: \<open>fault\<close> is an exception that escapes the
  runner itself (for instance a \<^verbatim>\<open>RuntimeError\<close> when no further thread can be started),
  \<open>probe i\<close> is how the \<open>i\<close>-th probe task settles (it returns a \<open>TestResult\<close> or raises),
  \<open>probe_order\<close> is the order in which \<^verbatim>\<open>as_completed\<close> yields the probe futures.
\<close>

record route_env =
  fault :: "exn option"
  probe :: "nat \<Rightarrow> exn + TestResult"
  probe_order :: "nat list"

definition new_results :: "string \<Rightarrow> route_info \<Rightarrow> RouteResult" where
  "new_results rname info =
     \<lparr>route_name = rname, result_url = url info, result_description = description info,
      success_count = 0, fail_count = 0, total_times = [], first_byte_times = [],
      errors = [], concurrent_threads = {}\<rparr>"

text \<open>
  The body of the loop over \<^verbatim>\<open>test_results\<close> in \<^verbatim>\<open>test_route_async\<close>: an entry of the
  list that \<^verbatim>\<open>gather(..., return_exceptions=True)\<close> returns is a \<open>TestResult\<close> or an
  exception object.
\<close>

fun async_collect :: "RouteResult \<Rightarrow> exn + TestResult \<Rightarrow> RouteResult" where
  "async_collect res (Inr result) =
     (let res = res\<lparr>concurrent_threads := insert (thread_id result) (concurrent_threads res)\<rparr> in
      if success result
      then res\<lparr>success_count := success_count res + 1,
               total_times := total_times res @ [total_time result],
               first_byte_times := first_byte_times res @ [first_byte_time result]\<rparr>
      else res\<lparr>fail_count := fail_count res + 1,
               errors := errors res @ [error result]\<rparr>)"
| "async_collect res (Inl e) =
     res\<lparr>fail_count := fail_count res + 1, errors := errors res @ [str_exn e]\<rparr>"

text \<open>
  The body of the loop over \<^verbatim>\<open>as_completed(futures)\<close> in \<^verbatim>\<open>test_route_sync\<close>:
  \<^verbatim>\<open>future.result()\<close> returns or raises into the \<^verbatim>\<open>except\<close> clause.
\<close>

definition sync_collect :: "RouteResult \<Rightarrow> exn + TestResult \<Rightarrow> RouteResult" where
  "sync_collect res fut =
     (case fut of
        Inr result \<Rightarrow>
          (let res = res\<lparr>concurrent_threads := insert (thread_id result) (concurrent_threads res)\<rparr> in
           if success result
           then res\<lparr>success_count := success_count res + 1,
                    total_times := total_times res @ [total_time result],
                    first_byte_times := first_byte_times res @ [first_byte_time result]\<rparr>
           else res\<lparr>fail_count := fail_count res + 1,
                    errors := errors res @ [error result]\<rparr>)
      | Inl e \<Rightarrow> res\<lparr>fail_count := fail_count res + 1, errors := errors res @ [str_exn e]\<rparr>)"

text \<open>
  \<^verbatim>\<open>as_completed(futures)\<close> yields the futures as they complete; \<open>order\<close> lists their
  positions in the order of completion. It yields nothing but the futures it was given.
\<close>

definition as_completed :: "nat list \<Rightarrow> 'a list \<Rightarrow> 'a list" where
  "as_completed order futures =
     map (\<lambda>i. futures ! i) (filter (\<lambda>i. i < length futures) order)"

text \<open>
  \<^verbatim>\<open>range(self.test_count)\<close> has \<open>nat (test_count self)\<close> elements (none for a negative
  count). \<^verbatim>\<open>gather\<close> returns the settled tasks in the order of submission.
\<close>

definition test_route_async ::
  "tester \<Rightarrow> string \<Rightarrow> route_info \<Rightarrow> route_env \<Rightarrow> exn + RouteResult" where
  "test_route_async self rname info w =
     (case fault w of
        Some e \<Rightarrow> Inl e
      | None \<Rightarrow>
          (let test_results = map (probe w) [0..<nat (test_count self)] in
           Inr (foldl async_collect (new_results rname info) test_results)))"

definition test_route_sync ::
  "tester \<Rightarrow> string \<Rightarrow> route_info \<Rightarrow> route_env \<Rightarrow> exn + RouteResult" where
  "test_route_sync self rname info w =
     (case fault w of
        Some e \<Rightarrow> Inl e
      | None \<Rightarrow>
          (let futures = map (probe w) [0..<nat (test_count self)] in
           Inr (foldl sync_collect (new_results rname info)
                  (as_completed (probe_order w) futures))))"

text \<open>
  When all futures complete, \<^verbatim>\<open>as_completed\<close> yields every future exactly once: a
  completion order of \<open>n\<close> futures is a permutation of their positions.
\<close>

definition completion_order :: "nat \<Rightarrow> nat list \<Rightarrow> bool" where
  "completion_order n order \<longleftrightarrow> mset order = mset [0..<n]"

subsection \<open>The scheduler: \<^verbatim>\<open>run_tests_async\<close>, \<^verbatim>\<open>run_tests_sync\<close>\<close>

text \<open>
  What happens during one run: the answer to \<^verbatim>\<open>Confirm.ask\<close>, what happens while each
  route is probed (by route name, the key of \<^verbatim>\<open>self.routes\<close>), and the order in which the
  runners of the routes finish, as positions in \<^verbatim>\<open>self.routes\<close>.
\<close>

record run_env =
  confirm :: bool
  world :: "string \<Rightarrow> route_env"
  route_order :: "nat list"

text \<open>
  The lines printed for one route after \<^verbatim>\<open>self.results.append(result)\<close>: the success
  rate divides by \<^verbatim>\<open>self.test_count\<close>, and \<^verbatim>\<open>statistics.mean(result['total_times'])\<close> is
  called when \<^verbatim>\<open>first_byte_times\<close> is not empty. The value is the exception raised, if any.
\<close>

definition show_route :: "tester \<Rightarrow> RouteResult \<Rightarrow> exn option" where
  "show_route self result =
     (if test_count self = 0 then Some (Exn ZeroDivisionError ''division by zero'')
      else if first_byte_times result \<noteq> [] \<and> total_times result = []
      then Some (Exn StatisticsError ''mean requires at least one data point'')
      else None)"

text \<open>
  \<^verbatim>\<open>asyncio.gather(*route_tasks)\<close> without \<^verbatim>\<open>return_exceptions\<close>: the first exception
  that a task raises, in the order of completion, is raised to the caller; when no task
  raises, the values are returned in the order of the tasks.
\<close>

fun collect_all :: "(exn + 'a) list \<Rightarrow> exn + 'a list" where
  "collect_all [] = Inr []"
| "collect_all (Inl e # ts) = Inl e"
| "collect_all (Inr v # ts) = (case collect_all ts of Inl e \<Rightarrow> Inl e | Inr vs \<Rightarrow> Inr (v # vs))"

definition gather :: "nat list \<Rightarrow> (exn + 'a) list \<Rightarrow> exn + 'a list" where
  "gather order tasks =
     (case collect_all (as_completed order tasks) of
        Inl e \<Rightarrow> Inl e
      | Inr done \<Rightarrow> collect_all tasks)"

text \<open>The loop over \<^verbatim>\<open>route_results\<close> in \<^verbatim>\<open>run_tests_async\<close>; nothing catches here.\<close>

fun async_append :: "tester \<Rightarrow> RouteResult list \<Rightarrow> exn + tester" where
  "async_append self [] = Inr self"
| "async_append self (result # rest) =
     (let self = self\<lparr>results := results self @ [result]\<rparr> in
      case show_route self result of
        Some e \<Rightarrow> Inl e
      | None \<Rightarrow> async_append self rest)"

definition run_tests_async :: "tester \<Rightarrow> run_env \<Rightarrow> exn + tester" where
  "run_tests_async self env =
     (if routes self = [] then Inr self
      else if \<not> confirm env then Inr self
      else
        (let route_tasks =
               map (\<lambda>(rname, info). test_route_async self rname info (world env rname))
                 (routes self)
         in case gather (route_order env) route_tasks of
              Inl e \<Rightarrow> Inl e
            | Inr route_results \<Rightarrow> async_append self route_results))"

text \<open>
  The body of the loop over \<^verbatim>\<open>as_completed(futures)\<close> in \<^verbatim>\<open>run_tests_sync\<close>. The
  \<^verbatim>\<open>except Exception\<close> clause prints a line and records nothing; it also catches what
  \<open>show_route\<close> raises, after the result was appended.
\<close>

definition sync_append :: "tester \<Rightarrow> exn + RouteResult \<Rightarrow> tester" where
  "sync_append self fut =
     (case fut of
        Inr result \<Rightarrow> self\<lparr>results := results self @ [result]\<rparr>
      | Inl e \<Rightarrow> self)"

definition run_tests_sync :: "tester \<Rightarrow> run_env \<Rightarrow> tester" where
  "run_tests_sync self env =
     (if routes self = [] then self
      else if \<not> confirm env then self
      else
        (let futures =
               map (\<lambda>(rname, info). test_route_sync self rname info (world env rname))
                 (routes self)
         in foldl sync_append self (as_completed (route_order env) futures)))"

subsection \<open>The ranker: \<^verbatim>\<open>generate_report\<close>\<close>

text \<open>
  The key of \<^verbatim>\<open>sorted(self.results, key=..., reverse=True)\<close>: a tuple, compared
  lexicographically.
\<close>

definition report_key :: "RouteResult \<Rightarrow> int \<times> real" where
  "report_key x =
     (success_count x,
      if first_byte_times x \<noteq> [] then - avg (calculate_stats (first_byte_times x)) else 999)"

text \<open>
  \<^verbatim>\<open>sorted\<close> is stable, also with \<^verbatim>\<open>reverse=True\<close>: it reverses the list, sorts it
  upwards keeping the order of equal keys, and reverses the outcome.
\<close>

definition sorted_results :: "tester \<Rightarrow> RouteResult list" where
  "sorted_results self = rev (sort_key report_key (rev (results self)))"

text \<open>
  \<^verbatim>\<open>result['url'].split('//')[1]\<close> raises \<^verbatim>\<open>IndexError\<close> unless the text holds two
  slashes in a row.
\<close>

fun has_double_slash :: "string \<Rightarrow> bool" where
  "has_double_slash (a # b # cs) =
     ((a = CHR ''/'' \<and> b = CHR ''/'') \<or> has_double_slash (b # cs))"
| "has_double_slash cs = False"

text \<open>The performance score of one route (\<^verbatim>\<open>success_ratio\<close>, \<^verbatim>\<open>avg_first_byte\<close>, \<^verbatim>\<open>score\<close>).\<close>

definition score :: "tester \<Rightarrow> RouteResult \<Rightarrow> exn + real" where
  "score self result =
     (if test_count self = 0 then Inl (Exn ZeroDivisionError ''division by zero'')
      else
        (let success_ratio = real_of_int (success_count result) / real_of_int (test_count self);
             avg_first_byte =
               (if first_byte_times result \<noteq> [] then mean_value (first_byte_times result)
                else 999)
         in if avg_first_byte + 0.1 = 0
            then Inl (Exn ZeroDivisionError ''float division by zero'')
            else Inr (success_ratio * 0.7 + (1 / (avg_first_byte + 0.1)) * 0.3)))"

text \<open>The variables \<^verbatim>\<open>best_route\<close> and \<^verbatim>\<open>best_score\<close>.\<close>

record ranking =
  best_route :: "RouteResult option"
  best_score :: real

text \<open>One pass of the loop over \<^verbatim>\<open>sorted_results\<close>.\<close>

definition report_row :: "tester \<Rightarrow> ranking \<Rightarrow> RouteResult \<Rightarrow> exn + ranking" where
  "report_row self best result =
     (if \<not> has_double_slash (result_url result)
      then Inl (Exn IndexError ''list index out of range'')
      else if test_count self = 0 then Inl (Exn ZeroDivisionError ''division by zero'')
      else if 0 < success_count result
      then (case score self result of
              Inl e \<Rightarrow> Inl e
            | Inr s \<Rightarrow>
                if best_score best < s then Inr \<lparr>best_route = Some result, best_score = s\<rparr>
                else Inr best)
      else Inr best)"

fun report_rows :: "tester \<Rightarrow> ranking \<Rightarrow> RouteResult list \<Rightarrow> exn + ranking" where
  "report_rows self best [] = Inr best"
| "report_rows self best (result # rest) =
     (case report_row self best result of
        Inl e \<Rightarrow> Inl e
      | Inr best' \<Rightarrow> report_rows self best' rest)"

text \<open>
  The recommendation panel, shown when \<^verbatim>\<open>best_route\<close> is set: the route's name, its
  mean first-byte and total times in milliseconds and its success rate in percent.
\<close>

record recommendation =
  recommended :: string
  avg_first_byte_ms :: real
  avg_total_ms :: real
  success_rate :: real

definition recommend :: "tester \<Rightarrow> RouteResult \<Rightarrow> exn + recommendation" where
  "recommend self best =
     (case mean (first_byte_times best) of
        Inl e \<Rightarrow> Inl e
      | Inr fb \<Rightarrow>
          (case mean (total_times best) of
             Inl e \<Rightarrow> Inl e
           | Inr tt \<Rightarrow>
               Inr \<lparr>recommended = route_name best,
                    avg_first_byte_ms = fb * 1000,
                    avg_total_ms = tt * 1000,
                    success_rate =
                      real_of_int (success_count best) / real_of_int (test_count self) * 100\<rparr>))"

text \<open>
  What \<^verbatim>\<open>generate_report\<close> shows: the rows of the table in their order, the final
  \<^verbatim>\<open>best_route\<close>, and the recommendation panel if there is one. Without results it
  prints a notice and returns (\<open>None\<close>).
\<close>

record report =
  table :: "RouteResult list"
  best :: "RouteResult option"
  panel :: "recommendation option"

definition generate_report :: "tester \<Rightarrow> exn + report option" where
  "generate_report self =
     (if results self = [] then Inr None
      else
        (case report_rows self \<lparr>best_route = None, best_score = - 1\<rparr> (sorted_results self) of
           Inl e \<Rightarrow> Inl e
         | Inr final \<Rightarrow>
             (case best_route final of
                None \<Rightarrow> Inr (Some \<lparr>table = sorted_results self, best = None, panel = None\<rparr>)
              | Some b \<Rightarrow>
                  (case recommend self b of
                     Inl e \<Rightarrow> Inl e
                   | Inr r \<Rightarrow>
                       Inr (Some \<lparr>table = sorted_results self, best = Some b,
                                  panel = Some r\<rparr>)))))"

subsection \<open>Notions used to state the properties\<close>

text \<open>The results of the probes that returned and succeeded, in the order of the list.\<close>

definition successes :: "(exn + TestResult) list \<Rightarrow> TestResult list" where
  "successes outs = filter success (map projr (filter (\<lambda>out. \<not> isl out) outs))"

text \<open>The values of the futures that returned, in the order of the list.\<close>

definition returned :: "(exn + 'a) list \<Rightarrow> 'a list" where
  "returned futs = map projr (filter (\<lambda>fut. \<not> isl fut) futs)"



subsection \<open>Concrete runs\<close>

text \<open>Two routes, three probes for each.\<close>

definition route_info_a :: route_info where
  "route_info_a = \<lparr>name = ''A'', url = ''https://a.example/v1/messages'', description = ''Main''\<rparr>"

definition route_info_b :: route_info where
  "route_info_b = \<lparr>name = ''B'', url = ''https://b.example/v1/messages'', description = ''CDN''\<rparr>"

definition demo_tester :: tester where
  "demo_tester =
     \<lparr>routes = [(''A'', route_info_a), (''B'', route_info_b)],
      test_count = 3, use_async = False, results = []\<rparr>"

text \<open>The first probe succeeds, the second raises, the third times out.\<close>

definition demo_probe :: "nat \<Rightarrow> exn + TestResult" where
  "demo_probe i =
     (if i = 0 then Inr \<lparr>success = True, total_time = 0.3, first_byte_time = 0.1,
                         error = [], thread_id = 1\<rparr>
      else if i = 1 then Inl (Exn OtherError ''boom'')
      else Inr (failed ''Timeout'' 2))"

definition demo_route_env :: route_env where
  "demo_route_env = \<lparr>fault = None, probe = demo_probe, probe_order = [2, 0, 1]\<rparr>"

definition faulty_route_env :: route_env where
  "faulty_route_env =
     \<lparr>fault = Some (Exn OtherError ''boom''), probe = demo_probe, probe_order = [2, 0, 1]\<rparr>"

text \<open>What the cooperative runner returns for route A.\<close>

definition demo_result :: RouteResult where
  "demo_result =
     \<lparr>route_name = ''A'', result_url = ''https://a.example/v1/messages'',
      result_description = ''Main'', success_count = 1, fail_count = 2,
      total_times = [0.3], first_byte_times = [0.1],
      errors = [''boom'', ''Timeout''], concurrent_threads = {1, 2}\<rparr>"


text \<open>The runner of route A raises.\<close>

definition faulty_env :: run_env where
  "faulty_env =
     \<lparr>confirm = True,
      world = (\<lambda>rname. if rname = ''A'' then faulty_route_env else demo_route_env),
      route_order = [0, 1]\<rparr>"

text \<open>A request that times out while the body is read.\<close>

definition timeout_exchange :: exchange where
  "timeout_exchange =
     \<lparr>start_clock = 5, post = Inr 200,
      body = [Chunk [], Fails (Exn TimeoutError [])],
      first_byte_clock = 0, end_clock = 0\<rparr>"

text \<open>
  Route A: 8 successes of 10 with a mean first-byte time of 0.3 s. Route B: 10 successes
  of 10 with a mean first-byte time of 0.5 s. Route C: 10 successes of 10 with a mean
  first-byte time of 0.05 s. Route D: no success.
\<close>

definition result_a :: RouteResult where
  "result_a =
     \<lparr>route_name = ''A'', result_url = ''https://a.example/v1/messages'',
      result_description = ''Main'', success_count = 8, fail_count = 2,
      total_times = replicate 8 0.9, first_byte_times = replicate 8 0.3,
      errors = [''Timeout'', ''Timeout''], concurrent_threads = {1}\<rparr>"

definition result_b :: RouteResult where
  "result_b =
     \<lparr>route_name = ''B'', result_url = ''https://b.example/v1/messages'',
      result_description = ''CDN'', success_count = 10, fail_count = 0,
      total_times = replicate 10 0.9, first_byte_times = replicate 10 0.5,
      errors = [], concurrent_threads = {1}\<rparr>"


definition result_d :: RouteResult where
  "result_d =
     \<lparr>route_name = ''D'', result_url = ''https://d.example/v1/messages'',
      result_description = ''Down'', success_count = 0, fail_count = 10,
      total_times = [], first_byte_times = [],
      errors = replicate 10 ''Timeout'', concurrent_threads = {1}\<rparr>"

definition ten_probes :: tester where
  "ten_probes = \<lparr>routes = [], test_count = 10, use_async = True, results = []\<rparr>"

section \<open>Proofs\<close>

subsection \<open>The prober\<close>

text \<open>
  Claim C9. Whatever the outcome of a request, a result that is not a success carries a
  total duration of 0 and a first-byte duration of 0, in the cooperative prober and in
  the thread-based one: for an HTTP status other than 200, for a body without data, for
  a timeout, for a transport error and for any other exception.
\<close>

theorem failure_durations_zero:
  "(\<not> success (test_single_request_async tid x) \<longrightarrow>
      total_time (test_single_request_async tid x) = 0
      \<and> first_byte_time (test_single_request_async tid x) = 0)
   \<and> (\<not> success (test_single_request_sync tid x) \<longrightarrow>
      total_time (test_single_request_sync tid x) = 0
      \<and> first_byte_time (test_single_request_sync tid x) = 0)"
  by (simp add: test_single_request_async_def test_single_request_sync_def request_body_def
        async_except_def sync_except_def failed_def split: sum.splits option.splits)

text \<open>The request that times out while its body is read, in both probers.\<close>

theorem failure_durations_zero_witness:
  "\<not> success (test_single_request_async 7 timeout_exchange)
   \<and> total_time (test_single_request_async 7 timeout_exchange) = 0
   \<and> first_byte_time (test_single_request_async 7 timeout_exchange) = 0
   \<and> error (test_single_request_async 7 timeout_exchange) = ''Timeout''
   \<and> \<not> success (test_single_request_sync 7 timeout_exchange)
   \<and> total_time (test_single_request_sync 7 timeout_exchange) = 0
   \<and> first_byte_time (test_single_request_sync 7 timeout_exchange) = 0"
  using failure_durations_zero [of 7 timeout_exchange]
  by (simp add: test_single_request_async_def test_single_request_sync_def request_body_def
        async_except_def sync_except_def failed_def timeout_exchange_def)

text \<open>The other kinds of outcome, evaluated.\<close>

lemma http_status_failure:
  "test_single_request_async 7 (x\<lparr>post := Inr 404\<rparr>) = failed ''HTTP 404'' 7"
  by (simp add: test_single_request_async_def request_body_def str_int_def digits.simps
        digit_char_def)

lemma no_data_failure:
  "test_single_request_sync 7 (x\<lparr>post := Inr 200, body := [Chunk [], Chunk []]\<rparr>)
     = failed ''No response data'' 7"
  by (simp add: test_single_request_sync_def request_body_def)

lemma request_success:
  "test_single_request_sync 7
     \<lparr>start_clock = 1, post = Inr 200, body = [Chunk [], Chunk ''d'', Chunk ''ata''],
      first_byte_clock = 3 / 2, end_clock = 3\<rparr>
   = \<lparr>success = True, total_time = 2, first_byte_time = 1 / 2, error = [], thread_id = 7\<rparr>"
  by (simp add: test_single_request_sync_def request_body_def)

subsection \<open>Statistics\<close>

text \<open>
  Claim C8. The statistics of the empty sequence are all 0, and those of the sequence
  100, 200, 300 are mean 200, minimum 100, maximum 300 and median 200.
\<close>

theorem calculate_stats_examples:
  "calculate_stats [] = \<lparr>avg = 0, stat_min = 0, stat_max = 0, median = 0\<rparr>
   \<and> calculate_stats [100, 200, 300]
       = \<lparr>avg = 200, stat_min = 100, stat_max = 300, median = 200\<rparr>"
  by (simp add: calculate_stats_def mean_value_def median_value_def)






subsection \<open>The route runner\<close>

lemma successes_simps [simp]:
  "successes [] = []"
  "successes (Inl e # outs) = successes outs"
  "successes (Inr r # outs) = (if success r then r # successes outs else successes outs)"
  by (simp_all add: successes_def)


text \<open>The two loop bodies are the same function.\<close>

lemma sync_collect_eq: "sync_collect res fut = async_collect res fut"
  by (cases fut) (simp_all add: sync_collect_def)

lemma foldl_sync_collect: "foldl sync_collect res outs = foldl async_collect res outs"
  by (induction outs arbitrary: res) (simp_all add: sync_collect_eq)

text \<open>What the loop does to each field, by induction on the list of settled probes.\<close>

lemma collect_success_count:
  "success_count (foldl async_collect res outs) = success_count res + int (length (successes outs))"
proof (induction outs arbitrary: res)
  case Nil
  show ?case by simp
next
  case (Cons out outs)
  show ?case by (cases out) (simp_all add: Cons.IH Let_def)
qed

lemma collect_fail_count:
  "fail_count (foldl async_collect res outs) =
     fail_count res + (int (length outs) - int (length (successes outs)))"
proof (induction outs arbitrary: res)
  case Nil
  show ?case by simp
next
  case (Cons out outs)
  show ?case by (cases out) (simp_all add: Cons.IH Let_def)
qed

lemma collect_total_times:
  "total_times (foldl async_collect res outs) = total_times res @ map total_time (successes outs)"
proof (induction outs arbitrary: res)
  case Nil
  show ?case by simp
next
  case (Cons out outs)
  show ?case by (cases out) (simp_all add: Cons.IH Let_def)
qed

lemma collect_first_byte_times:
  "first_byte_times (foldl async_collect res outs) =
     first_byte_times res @ map first_byte_time (successes outs)"
proof (induction outs arbitrary: res)
  case Nil
  show ?case by simp
next
  case (Cons out outs)
  show ?case by (cases out) (simp_all add: Cons.IH Let_def)
qed

lemma collect_errors_length:
  "int (length (errors (foldl async_collect res outs))) =
     int (length (errors res)) + (int (length outs) - int (length (successes outs)))"
proof (induction outs arbitrary: res)
  case Nil
  show ?case by simp
next
  case (Cons out outs)
  show ?case by (cases out) (simp_all add: Cons.IH Let_def)
qed

lemma collect_route_name:
  "route_name (foldl async_collect res outs) = route_name res"
proof (induction outs arbitrary: res)
  case Nil
  show ?case by simp
next
  case (Cons out outs)
  show ?case by (cases out) (simp_all add: Cons.IH Let_def)
qed

lemma completion_order_set: "completion_order n order \<Longrightarrow> set order = {0..<n}"
  unfolding completion_order_def by (metis mset_eq_setD set_upt)

lemma as_completed_in_range:
  assumes "\<forall>i \<in> set order. i < length futs"
  shows "as_completed order futs = map (\<lambda>i. futs ! i) order"
proof -
  from assms have "filter (\<lambda>i. i < length futs) order = order"
    by simp
  then show ?thesis
    by (simp add: as_completed_def)
qed

text \<open>The futures in a completion order are the submitted futures, rearranged.\<close>

lemma as_completed_mset:
  assumes "completion_order (length futs) order"
  shows "mset (as_completed order futs) = mset futs"
proof -
  from assms have m: "mset order = mset [0..<length futs]"
    by (simp add: completion_order_def)
  from assms have "\<forall>i \<in> set order. i < length futs"
    by (simp add: completion_order_set)
  then have "as_completed order futs = map (\<lambda>i. futs ! i) order"
    by (rule as_completed_in_range)
  moreover have "mset (map (\<lambda>i. futs ! i) order) = mset (map (\<lambda>i. futs ! i) [0..<length futs])"
    using m by (metis mset_map)
  moreover have "map (\<lambda>i. futs ! i) [0..<length futs] = futs"
    by (rule map_nth)
  ultimately show ?thesis by (simp only:)
qed

lemma completion_order_futures:
  assumes "completion_order n order"
  shows "mset (as_completed order (map f [0..<n])) = mset (map f [0..<n])"
  using assms by (intro as_completed_mset) simp

lemma test_route_sync_cases:
  "test_route_sync self rname info w =
     (case fault w of Some e \<Rightarrow> Inl e
      | None \<Rightarrow> Inr (foldl async_collect (new_results rname info)
           (as_completed (probe_order w) (map (probe w) [0..<nat (test_count self)]))))"
  by (simp add: test_route_sync_def foldl_sync_collect Let_def split: option.split)


text \<open>
  Claim C4. With a probe count that is not negative, each runner that does not raise
  returns a result whose success count and fail count add up to the probe count, whatever
  the probes did (returned a success, returned a failure or raised) and in whatever order
  they completed.
\<close>

theorem count_invariant:
  assumes "0 \<le> test_count self"
    and "completion_order (nat (test_count self)) (probe_order w)"
    and "fault w = None"
  shows "\<exists>a s. test_route_async self rname info w = Inr a
           \<and> test_route_sync self rname info w = Inr s
           \<and> success_count a + fail_count a = test_count self
           \<and> success_count s + fail_count s = test_count self"
proof -
  let ?n = "nat (test_count self)"
  let ?a = "map (probe w) [0..<?n]"
  let ?s = "as_completed (probe_order w) ?a"
  let ?init = "new_results rname info"
  have "mset ?s = mset ?a"
    using assms(2) by (rule completion_order_futures)
  then have "length ?s = length ?a"
    by (rule mset_eq_length)
  then have len: "int (length ?s) = test_count self" "int (length ?a) = test_count self"
    using assms(1) by simp_all
  have a: "success_count (foldl async_collect ?init ?a) + fail_count (foldl async_collect ?init ?a)
             = test_count self"
    unfolding collect_success_count collect_fail_count using len(2)
    by (simp add: new_results_def)
  have s: "success_count (foldl sync_collect ?init ?s) + fail_count (foldl sync_collect ?init ?s)
             = test_count self"
    unfolding foldl_sync_collect collect_success_count collect_fail_count using len(1)
    by (simp add: new_results_def)
  from assms(3) a s show ?thesis
    by (simp add: test_route_async_def test_route_sync_def)
qed

text \<open>
  With a negative probe count \<^verbatim>\<open>range\<close> is empty: no probe is issued and both counters
  stay 0.
\<close>

lemma negative_count_no_probes:
  assumes "test_count self < 0" and "fault w = None"
  shows "test_route_async self rname info w = Inr (new_results rname info)"
  using assms by (simp add: test_route_async_def)

text \<open>
  Claim C10. In a result returned by either runner, the sequence of total durations and
  the sequence of first-byte durations have the same length, which is the success count,
  and the sequence of error messages has the length of the fail count.
\<close>

theorem sequence_lengths:
  assumes "test_route_async self rname info w = Inr r \<or> test_route_sync self rname info w = Inr r"
  shows "length (total_times r) = length (first_byte_times r)
       \<and> int (length (first_byte_times r)) = success_count r
       \<and> int (length (errors r)) = fail_count r"
proof -
  from assms obtain outs where r: "r = foldl async_collect (new_results rname info) outs"
    by (auto simp: test_route_async_def test_route_sync_def foldl_sync_collect
             split: option.splits)
  show ?thesis
    unfolding r collect_total_times collect_first_byte_times collect_success_count
      collect_fail_count
    using collect_errors_length [of "new_results rname info" outs]
    by (simp add: new_results_def)
qed

text \<open>The two runners on route A of the concrete run, evaluated.\<close>

lemma demo_futures:
  "map demo_probe [0..<3] =
     [Inr \<lparr>success = True, total_time = 0.3, first_byte_time = 0.1, error = [], thread_id = 1\<rparr>,
      Inl (Exn OtherError ''boom''),
      Inr (failed ''Timeout'' 2)]"
  by (simp add: upt_rec demo_probe_def)

lemma demo_completion: "completion_order (nat (test_count demo_tester)) (probe_order demo_route_env)"
  by (simp add: completion_order_def demo_tester_def demo_route_env_def upt_rec)

lemma demo_async:
  "test_route_async demo_tester ''A'' route_info_a demo_route_env = Inr demo_result"
  by (simp add: test_route_async_def demo_tester_def demo_route_env_def demo_futures
        new_results_def route_info_a_def failed_def insert_commute demo_result_def)

lemma demo_sync:
  "test_route_sync demo_tester ''A'' route_info_a demo_route_env =
     Inr (demo_result\<lparr>errors := [''Timeout'', ''boom'']\<rparr>)"
  by (simp add: test_route_sync_cases demo_tester_def demo_route_env_def demo_futures
        new_results_def route_info_a_def failed_def insert_commute demo_result_def
        as_completed_def)


theorem count_invariant_witness:
  "0 \<le> test_count demo_tester
   \<and> completion_order (nat (test_count demo_tester)) (probe_order demo_route_env)
   \<and> fault demo_route_env = None
   \<and> (\<exists>a s. test_route_async demo_tester ''A'' route_info_a demo_route_env = Inr a
           \<and> test_route_sync demo_tester ''A'' route_info_a demo_route_env = Inr s
           \<and> success_count a + fail_count a = test_count demo_tester
           \<and> success_count s + fail_count s = test_count demo_tester)"
proof -
  have h1: "0 \<le> test_count demo_tester"
    by (simp add: demo_tester_def)
  have h3: "fault demo_route_env = None"
    by (simp add: demo_route_env_def)
  from count_invariant [OF h1 demo_completion h3, of "''A''" route_info_a] h1 demo_completion h3
  show ?thesis by blast
qed

theorem sequence_lengths_witness:
  "(test_route_async demo_tester ''A'' route_info_a demo_route_env = Inr demo_result
    \<or> test_route_sync demo_tester ''A'' route_info_a demo_route_env = Inr demo_result)
   \<and> length (total_times demo_result) = length (first_byte_times demo_result)
   \<and> int (length (first_byte_times demo_result)) = success_count demo_result
   \<and> int (length (errors demo_result)) = fail_count demo_result"
proof -
  have h: "test_route_async demo_tester ''A'' route_info_a demo_route_env = Inr demo_result
    \<or> test_route_sync demo_tester ''A'' route_info_a demo_route_env = Inr demo_result"
    by (simp add: demo_async)
  from sequence_lengths [OF h] h show ?thesis by blast
qed

subsection \<open>The scheduler\<close>

lemma async_collect_route_name: "route_name (async_collect res out) = route_name res"
  by (cases out) (simp_all add: Let_def)

lemma returned_simps [simp]:
  "returned [] = []"
  "returned (Inl e # futs) = returned futs"
  "returned (Inr v # futs) = v # returned futs"
  by (simp_all add: returned_def)

lemma returned_mem: "r \<in> set (returned futs) \<longleftrightarrow> Inr r \<in> set futs"
proof (induction futs)
  case Nil
  show ?case by simp
next
  case (Cons fut futs)
  then show ?case by (cases fut) auto
qed

lemma sync_append_simps [simp]:
  "sync_append self (Inl e) = self"
  "sync_append self (Inr r) = self\<lparr>results := results self @ [r]\<rparr>"
  by (simp_all add: sync_append_def)

text \<open>The thread-based loop appends the results of the runners that returned, as they come.\<close>

lemma foldl_sync_append:
  "results (foldl sync_append self futs) = results self @ returned futs"
proof (induction futs arbitrary: self)
  case Nil
  show ?case by simp
next
  case (Cons fut futs)
  show ?case by (cases fut) (simp_all add: Cons.IH)
qed

lemma test_route_sync_name:
  "test_route_sync self rname info w = Inr r \<Longrightarrow> route_name r = rname \<and> fault w = None"
  by (auto simp: test_route_sync_cases collect_route_name new_results_def split: option.splits)


lemma run_tests_sync_results:
  assumes "confirm env" and "routes self \<noteq> []"
  shows "results (run_tests_sync self env) =
     results self @
     returned (as_completed (route_order env)
                 (map (\<lambda>(rname, info). test_route_sync self rname info (world env rname))
                    (routes self)))"
  using assms by (simp add: run_tests_sync_def foldl_sync_append)




lemma collect_all_raises:
  "\<exists>t \<in> set tasks. isl t \<Longrightarrow> isl (collect_all tasks)"
proof (induction tasks)
  case Nil
  then show ?case by simp
next
  case (Cons t tasks)
  then show ?case by (cases t) (auto split: sum.splits)
qed


lemma gather_raises:
  assumes "\<exists>t \<in> set tasks. isl t"
  shows "isl (gather order tasks)"
  using collect_all_raises [OF assms]
  by (auto simp: gather_def split: sum.splits)





text \<open>
  A confirmed cooperative run in which the runner of some route raises does not return:
  the exception leaves \<^verbatim>\<open>run_tests_async\<close>, and no result reaches the report.
\<close>

lemma async_run_raises:
  assumes "confirm env" and "(rname, info) \<in> set (routes self)"
    and "fault (world env rname) \<noteq> None"
  shows "isl (run_tests_async self env)"
proof -
  let ?tasks = "map (\<lambda>(rname, info). test_route_async self rname info (world env rname)) (routes self)"
  from assms(3) have "isl (test_route_async self rname info (world env rname))"
    by (auto simp: test_route_async_def)
  with assms(2) have "\<exists>t \<in> set ?tasks. isl t"
    by force
  then have "isl (gather (route_order env) ?tasks)"
    by (rule gather_raises)
  with assms(1,2) show ?thesis
    by (auto simp: run_tests_async_def isl_def)
qed






lemma returned_set:
  assumes "set order = {0..<length futs}"
  shows "set (returned (as_completed order futs)) = set (returned futs)"
proof -
  have "as_completed order futs = map (\<lambda>i. futs ! i) order"
    using assms by (intro as_completed_in_range) simp
  then have "set (as_completed order futs) = (\<lambda>i. futs ! i) ` set [0..<length futs]"
    using assms by simp
  also have "\<dots> = set (map (\<lambda>i. futs ! i) [0..<length futs])"
    by (simp only: set_map)
  also have "\<dots> = set futs"
    by (simp only: map_nth)
  finally show ?thesis
    by (auto simp: returned_mem)
qed

text \<open>
  Claim C2, as amended. Under the thread-based strategy, in a confirmed run: if the
  runner of a route raises, \<^verbatim>\<open>self.results\<close> holds no result for that route, and if it
  returns, its result is in \<^verbatim>\<open>self.results\<close>, whatever the runners of the other routes do.
\<close>

theorem thread_fault_isolated:
  assumes "confirm env" and "results self = []"
    and "completion_order (length (routes self)) (route_order env)"
    and "(rname, info) \<in> set (routes self)"
  shows "(fault (world env rname) \<noteq> None \<longrightarrow>
            rname \<notin> route_name ` set (results (run_tests_sync self env)))
       \<and> (\<forall>r. test_route_sync self rname info (world env rname) = Inr r \<longrightarrow>
            r \<in> set (results (run_tests_sync self env)))"
proof -
  let ?futs = "map (\<lambda>(rname, info). test_route_sync self rname info (world env rname)) (routes self)"
  from assms(4) have ne: "routes self \<noteq> []" by auto
  have "set (route_order env) = {0..<length ?futs}"
    using completion_order_set [OF assms(3)] by simp
  then have "set (returned (as_completed (route_order env) ?futs)) = set (returned ?futs)"
    by (rule returned_set)
  then have res: "set (results (run_tests_sync self env)) = set (returned ?futs)"
    unfolding run_tests_sync_results [OF assms(1) ne] assms(2) by simp
  note mem = returned_mem [of _ ?futs]
  have a: "rname \<notin> route_name ` set (returned ?futs)" if f: "fault (world env rname) \<noteq> None"
  proof
    assume "rname \<in> route_name ` set (returned ?futs)"
    then obtain r where "Inr r \<in> set ?futs" "route_name r = rname"
      using mem by auto
    then obtain n i where "test_route_sync self n i (world env n) = Inr r"
      by auto
    from test_route_sync_name [OF this] \<open>route_name r = rname\<close> f show False
      by simp
  qed
  have b: "r \<in> set (returned ?futs)" if "test_route_sync self rname info (world env rname) = Inr r" for r
    unfolding mem using assms(4) that by force
  from a b show ?thesis unfolding res by blast
qed

lemma faulty_order: "completion_order (length (routes demo_tester)) (route_order faulty_env)"
  by (simp add: completion_order_def demo_tester_def faulty_env_def upt_rec)

theorem thread_fault_isolated_witness:
  "confirm faulty_env \<and> results demo_tester = []
   \<and> completion_order (length (routes demo_tester)) (route_order faulty_env)
   \<and> (''A'', route_info_a) \<in> set (routes demo_tester)
   \<and> fault (world faulty_env ''A'') \<noteq> None
   \<and> ''A'' \<notin> route_name ` set (results (run_tests_sync demo_tester faulty_env))"
proof -
  have h1: "confirm faulty_env"
    by (simp add: faulty_env_def)
  have h2: "results demo_tester = []" and h4: "(''A'', route_info_a) \<in> set (routes demo_tester)"
    by (simp_all add: demo_tester_def)
  have f: "fault (world faulty_env ''A'') \<noteq> None"
    by (simp add: faulty_env_def faulty_route_env_def)
  from thread_fault_isolated [OF h1 h2 faulty_order h4] h1 h2 faulty_order h4 f
  show ?thesis by blast
qed

text \<open>
  The claim as it was stated fails under both strategies. With the runner of route A
  raising: the thread-based run records route B only, so that route A is not recorded as
  failed with a fail count of 3 and one error message, and the cooperative run raises
  the exception of route A and records nothing.
\<close>

theorem fault_not_recorded:
  "map route_name (results (run_tests_sync demo_tester faulty_env)) = [''B'']
   \<and> run_tests_async demo_tester faulty_env = Inl (Exn OtherError ''boom'')"
  by (simp add: run_tests_sync_def run_tests_async_def demo_tester_def faulty_env_def
        test_route_sync_cases test_route_async_def demo_route_env_def faulty_route_env_def
        foldl_sync_append async_collect_route_name new_results_def gather_def
        as_completed_def)

subsection \<open>The ranker\<close>

lemma sorted_results_mset: "mset (sorted_results self) = mset (results self)"
  by (simp add: sorted_results_def)

lemma set_sorted_results: "set (sorted_results self) = set (results self)"
  by (simp add: sorted_results_def)

text \<open>The rows of the table go down in their keys.\<close>

lemma sorted_results_descending:
  "sorted_wrt (\<lambda>a b. report_key b \<le> report_key a) (sorted_results self)"
proof -
  have "sorted (map report_key (sort_key report_key (rev (results self))))"
    by (rule sorted_sort_key)
  then have "sorted_wrt (\<lambda>a b. report_key a \<le> report_key b)
               (sort_key report_key (rev (results self)))"
    by (simp only: sorted_map)
  then show ?thesis
    by (simp add: sorted_results_def sorted_wrt_rev)
qed

lemma report_key_le:
  assumes "report_key b \<le> report_key a"
  shows "success_count b \<le> success_count a"
    and "success_count a = success_count b \<Longrightarrow> first_byte_times a \<noteq> [] \<Longrightarrow>
         first_byte_times b \<noteq> [] \<Longrightarrow>
         mean_value (first_byte_times a) \<le> mean_value (first_byte_times b)"
proof -
  from assms show "success_count b \<le> success_count a"
    by (auto simp: report_key_def less_eq_prod_def split: if_splits)
  assume "success_count a = success_count b" "first_byte_times a \<noteq> []" "first_byte_times b \<noteq> []"
  with assms show "mean_value (first_byte_times a) \<le> mean_value (first_byte_times b)"
    by (simp add: report_key_def less_eq_prod_def calculate_stats_def)
qed

lemma sorted_pair:
  assumes "success_count a < success_count b"
  shows "sorted_results (self\<lparr>results := [a, b]\<rparr>) = [b, a]"
    and "sorted_results (self\<lparr>results := [b, a]\<rparr>) = [b, a]"
  using assms by (simp_all add: sorted_results_def report_key_def less_eq_prod_def)

text \<open>
  Claim C7. The table shows the results, each once, by success count downwards, and,
  among results with the same success count that have first-byte times, by mean
  first-byte time upwards. In particular, of two results the one with the higher success
  count comes first whatever the latencies are, as for route A with 8 successes and a
  mean of 0.3 s and route B with 10 successes and a mean of 0.5 s.
\<close>

theorem display_order:
  "mset (sorted_results self) = mset (results self)
   \<and> (\<forall>i j. i < j \<and> j < length (sorted_results self) \<longrightarrow>
        success_count (sorted_results self ! j) \<le> success_count (sorted_results self ! i)
        \<and> (success_count (sorted_results self ! i) = success_count (sorted_results self ! j)
             \<and> first_byte_times (sorted_results self ! i) \<noteq> []
             \<and> first_byte_times (sorted_results self ! j) \<noteq> [] \<longrightarrow>
           mean_value (first_byte_times (sorted_results self ! i))
             \<le> mean_value (first_byte_times (sorted_results self ! j))))
   \<and> (success_count a < success_count b \<longrightarrow>
        sorted_results (self\<lparr>results := [a, b]\<rparr>) = [b, a]
        \<and> sorted_results (self\<lparr>results := [b, a]\<rparr>) = [b, a])"
proof -
  have "report_key (sorted_results self ! j) \<le> report_key (sorted_results self ! i)"
    if "i < j" "j < length (sorted_results self)" for i j
    using sorted_results_descending [of self] that
    by (simp add: sorted_wrt_iff_nth_less)
  then have "success_count (sorted_results self ! j) \<le> success_count (sorted_results self ! i)
        \<and> (success_count (sorted_results self ! i) = success_count (sorted_results self ! j)
             \<and> first_byte_times (sorted_results self ! i) \<noteq> []
             \<and> first_byte_times (sorted_results self ! j) \<noteq> [] \<longrightarrow>
           mean_value (first_byte_times (sorted_results self ! i))
             \<le> mean_value (first_byte_times (sorted_results self ! j)))"
    if "i < j" "j < length (sorted_results self)" for i j
    using report_key_le [of "sorted_results self ! j" "sorted_results self ! i"] that by blast
  then show ?thesis
    using sorted_pair [of a b self] sorted_results_mset [of self] by blast
qed

lemma mean_replicate: "0 < n \<Longrightarrow> mean_value (replicate n t) = t"
  by (simp add: mean_value_def sum_list_replicate)

theorem display_order_witness:
  "success_count result_a = 8 \<and> mean_value (first_byte_times result_a) = 0.3
   \<and> success_count result_b = 10 \<and> mean_value (first_byte_times result_b) = 0.5
   \<and> success_count result_a < success_count result_b
   \<and> sorted_results (ten_probes\<lparr>results := [result_a, result_b]\<rparr>) = [result_b, result_a]
   \<and> sorted_results (ten_probes\<lparr>results := [result_b, result_a]\<rparr>) = [result_b, result_a]"
proof -
  have h: "success_count result_a < success_count result_b"
    by (simp add: result_a_def result_b_def)
  have v: "success_count result_a = 8" "mean_value (first_byte_times result_a) = 0.3"
    "success_count result_b = 10" "mean_value (first_byte_times result_b) = 0.5"
    by (simp_all add: result_a_def result_b_def mean_replicate)
  from display_order [of ten_probes result_a result_b] h v show ?thesis
    by blast
qed



lemma report_row_best:
  assumes "report_row self b0 r = Inr b1"
  shows "b1 = b0 \<or> (best_route b1 = Some r \<and> 0 < success_count r)"
  using assms by (auto simp: report_row_def split: if_splits sum.splits)

text \<open>The loop sets \<^verbatim>\<open>best_route\<close> to results with a success only.\<close>

lemma report_rows_best:
  assumes "report_rows self b0 rs = Inr b1"
  shows "best_route b1 = best_route b0
       \<or> (\<exists>r \<in> set rs. best_route b1 = Some r \<and> 0 < success_count r)"
  using assms
proof (induction rs arbitrary: b0)
  case Nil
  then show ?case by simp
next
  case (Cons r rs)
  from Cons.prems obtain b where row: "report_row self b0 r = Inr b"
    and rest: "report_rows self b rs = Inr b1"
    by (auto split: sum.splits)
  from Cons.IH [OF rest] report_row_best [OF row] show ?case
    by auto
qed

lemma report_rows_no_success:
  assumes "\<forall>r \<in> set rs. success_count r = 0 \<and> has_double_slash (result_url r)"
    and "test_count self \<noteq> 0"
  shows "report_rows self b0 rs = Inr b0"
  using assms by (induction rs) (simp_all add: report_row_def)

lemma generate_report_best:
  assumes "generate_report self = Inr (Some rep)" and "best rep = Some b"
  shows "b \<in> set (results self) \<and> 0 < success_count b"
proof -
  let ?b0 = "\<lparr>best_route = None, best_score = - 1\<rparr>"
  from assms obtain final where rows: "report_rows self ?b0 (sorted_results self) = Inr final"
    and "best_route final = Some b"
    by (auto simp: generate_report_def split: if_splits sum.splits option.splits)
  with report_rows_best [OF rows] show ?thesis
    by (auto simp: set_sorted_results)
qed

lemma generate_report_panel:
  assumes "generate_report self = Inr (Some rep)"
  shows "panel rep = None \<longleftrightarrow> best rep = None"
  using assms
  by (auto simp: generate_report_def split: if_splits sum.splits option.splits)

lemma report_row_score:
  assumes "report_row self b0 r = Inr b1"
  shows "best_score b0 \<le> best_score b1
       \<and> (0 < success_count r \<longrightarrow> (\<exists>s. score self r = Inr s \<and> s \<le> best_score b1))"
  using assms by (auto simp: report_row_def split: if_splits sum.splits)

text \<open>
  When the loop ends, \<^verbatim>\<open>best_score\<close> is at least the score of every result with a
  success: the best route has the highest score.
\<close>

lemma report_rows_score:
  assumes "report_rows self b0 rs = Inr b1"
  shows "best_score b0 \<le> best_score b1
       \<and> (\<forall>r \<in> set rs. 0 < success_count r \<longrightarrow>
            (\<exists>s. score self r = Inr s \<and> s \<le> best_score b1))"
  using assms
proof (induction rs arbitrary: b0)
  case Nil
  then show ?case by simp
next
  case (Cons r rs)
  from Cons.prems obtain b where row: "report_row self b0 r = Inr b"
    and rest: "report_rows self b rs = Inr b1"
    by (auto split: sum.splits)
  from Cons.IH [OF rest] report_row_score [OF row] show ?case
    by fastforce
qed

text \<open>
  Claim C6. Whatever the list of results, a reported best route is one of the results
  and has at least one success, so a route without success is never the best route, not
  even when it is the only one. When no route has a success, a report has no best route
  and no recommendation panel; and with a probe count other than 0 and URLs that hold
  \<^verbatim>\<open>//\<close> the report is produced, with the table only.
\<close>

theorem zero_success_never_best:
  "(\<forall>rep b. generate_report self = Inr (Some rep) \<and> best rep = Some b \<longrightarrow>
       b \<in> set (results self) \<and> 0 < success_count b)
   \<and> ((\<forall>r \<in> set (results self). success_count r = 0) \<longrightarrow>
        (\<forall>rep. generate_report self = Inr (Some rep) \<longrightarrow> best rep = None \<and> panel rep = None)
        \<and> (results self \<noteq> [] \<and> test_count self \<noteq> 0
             \<and> (\<forall>r \<in> set (results self). has_double_slash (result_url r)) \<longrightarrow>
           generate_report self =
             Inr (Some \<lparr>table = sorted_results self, best = None, panel = None\<rparr>)))"
proof -
  have a: "b \<in> set (results self) \<and> 0 < success_count b"
    if "generate_report self = Inr (Some rep)" "best rep = Some b" for rep b
    using that by (rule generate_report_best)
  have b: "best rep = None \<and> panel rep = None"
    if z: "\<forall>r \<in> set (results self). success_count r = 0"
      and g: "generate_report self = Inr (Some rep)" for rep
  proof (cases "best rep")
    case None
    with generate_report_panel [OF g] show ?thesis by simp
  next
    case (Some b)
    with generate_report_best [OF g] z show ?thesis by auto
  qed
  have c: "generate_report self =
             Inr (Some \<lparr>table = sorted_results self, best = None, panel = None\<rparr>)"
    if "\<forall>r \<in> set (results self). success_count r = 0" "results self \<noteq> []"
      "test_count self \<noteq> 0" "\<forall>r \<in> set (results self). has_double_slash (result_url r)"
  proof -
    from that have "report_rows self \<lparr>best_route = None, best_score = - 1\<rparr> (sorted_results self)
        = Inr \<lparr>best_route = None, best_score = - 1\<rparr>"
      by (intro report_rows_no_success) (simp_all add: set_sorted_results)
    with that(2) show ?thesis
      by (simp add: generate_report_def)
  qed
  from a b c show ?thesis by blast
qed

text \<open>Route D, without success, as the only route: a table, no best route, no panel.\<close>

theorem zero_success_never_best_witness:
  "success_count result_d = 0
   \<and> results (ten_probes\<lparr>results := [result_d]\<rparr>) = [result_d]
   \<and> generate_report (ten_probes\<lparr>results := [result_d]\<rparr>)
       = Inr (Some \<lparr>table = [result_d], best = None, panel = None\<rparr>)"
proof -
  let ?t = "ten_probes\<lparr>results := [result_d]\<rparr>"
  have z: "\<forall>r \<in> set (results ?t). success_count r = 0"
    and u: "\<forall>r \<in> set (results ?t). has_double_slash (result_url r)"
    by (simp_all add: result_d_def)
  have n: "results ?t \<noteq> []" "test_count ?t \<noteq> 0"
    by (simp_all add: ten_probes_def)
  have s: "sorted_results ?t = [result_d]"
    by (simp add: sorted_results_def)
  from zero_success_never_best [of ?t] z u n
  have "generate_report ?t = Inr (Some \<lparr>table = sorted_results ?t, best = None, panel = None\<rparr>)"
    by blast
  moreover have "success_count result_d = 0"
    by (simp add: result_d_def)
  ultimately show ?thesis
    by (simp add: s)
qed

text \<open>
  Routes A, B and D together: B leads the table, and A, whose score is higher, is the
  best route.
\<close>

lemma report_example:
  "generate_report (ten_probes\<lparr>results := [result_d, result_a, result_b]\<rparr>) =
     Inr (Some \<lparr>table = [result_b, result_a, result_d], best = Some result_a,
                panel = Some \<lparr>recommended = ''A'', avg_first_byte_ms = 300,
                               avg_total_ms = 900, success_rate = 80\<rparr>\<rparr>)"
proof -
  let ?t = "ten_probes\<lparr>results := [result_d, result_a, result_b]\<rparr>"
  have k: "report_key result_a = (8, - 0.3)" "report_key result_b = (10, - 0.5)"
    "report_key result_d = (0, 999)"
    by (simp_all add: report_key_def result_a_def result_b_def result_d_def calculate_stats_def
          mean_replicate)
  have s: "sorted_results ?t = [result_b, result_a, result_d]"
    by (simp add: sorted_results_def k less_eq_prod_def)
  have u: "has_double_slash (result_url result_a)" "has_double_slash (result_url result_b)"
    "has_double_slash (result_url result_d)"
    by (simp_all add: result_a_def result_b_def result_d_def)
  have c: "success_count result_a = 8" "success_count result_b = 10" "success_count result_d = 0"
    by (simp_all add: result_a_def result_b_def result_d_def)
  have sc: "score ?t result_a = Inr 1.31" "score ?t result_b = Inr 1.2"
    by (simp_all add: score_def ten_probes_def result_a_def result_b_def mean_replicate)
  have "report_rows ?t \<lparr>best_route = None, best_score = - 1\<rparr> [result_b, result_a, result_d]
          = Inr \<lparr>best_route = Some result_a, best_score = 1.31\<rparr>"
    by (simp add: report_row_def u c sc) (simp add: ten_probes_def)
  moreover have "recommend ?t result_a =
      Inr \<lparr>recommended = ''A'', avg_first_byte_ms = 300, avg_total_ms = 900, success_rate = 80\<rparr>"
    by (simp add: recommend_def mean_def result_a_def mean_replicate ten_probes_def)
  ultimately show ?thesis
    by (simp add: generate_report_def s)
qed

end
